theory Spec2Isabelle
  imports Main "HOL-Library.Sublist" "HOL-Library.AList"
begin

section \<open>Data model\<close>

text \<open>
  The registry (conf.json) and the fixture document are plain JSON values. A Python
  dict is an association list in insertion order; \<open>d[k]\<close> and \<open>d.get(k)\<close> read it with
  \<^const>\<open>map_of\<close>, and \<open>d[k] = v\<close> on a key that is present keeps the key's position
  (\<^const>\<open>AList.update\<close>).
\<close>

datatype json =
    JNull
  | JBool bool
  | JNum int
  | JStr string
  | JArr "json list"
  | JObj "(string \<times> json) list"

text \<open>
  The exceptions that reach the caller. \<open>FileNotFoundError\<close> is not among them: both
  reconciliation operations catch it. The registry file on disk is a \<open>json option\<close>,
  \<open>None\<close> when the file is absent, so that \<open>_load_conf_file\<close> raises
  \<open>FileNotFoundError\<close> exactly on \<open>None\<close>.
\<close>

datatype error = KeyError | TypeError | AttributeError

text \<open>
  What an operation did to the registry file: \<open>Inl e\<close> when it raised \<open>e\<close> (each
  operation's only write is its last action, so a raise means nothing was written),
  \<open>Inr None\<close> when it returned without writing, \<open>Inr (Some doc)\<close> when it wrote
  \<open>doc\<close> and returned.
\<close>

type_synonym written = "error + json option"

section \<open>Strings\<close>

text \<open>
  \<open>str.lower()\<close> on the ASCII letters; every other character is kept. No character
  outside ASCII lowers to a letter of \<open>no test\<close>, so the sentinel tests below do not
  depend on the rest of Unicode.
\<close>

definition lower_char :: "char \<Rightarrow> char" where
  "lower_char c =
     (let n = (of_char c :: nat) in if 65 \<le> n \<and> n \<le> 90 then char_of (n + 32) else c)"

definition lower :: "string \<Rightarrow> string" where
  "lower s = map lower_char s"

text \<open>Python's \<open>any\<close> over strings: some element is truthy, that is non-empty.\<close>

definition any_str :: "string list \<Rightarrow> bool" where
  "any_str xs = list_ex (\<lambda>x. x \<noteq> []) xs"

section \<open>update_generic_yml.py\<close>

text \<open>
  \<open>update_conf_json\<close>, lines 312-314:
  \<^verbatim>\<open>any(test for test in test_playbooks if "no test" in test.lower())\<close>
\<close>

definition no_test_playbooks_explicitly_update :: "string list \<Rightarrow> bool" where
  "no_test_playbooks_explicitly_update test_playbooks =
     any_str [test \<leftarrow> test_playbooks. sublist ''no test'' (lower test)]"

text \<open>
  \<open>remove_from_conf_json\<close>, lines 280-284:
  \<^verbatim>\<open>any(test for test in related_test_playbook
      if ("no test" in test.lower()) or ("no tests" in test.lower()))\<close>
\<close>

definition no_test_playbooks_explicitly_remove :: "string list \<Rightarrow> bool" where
  "no_test_playbooks_explicitly_remove related_test_playbook =
     any_str [test \<leftarrow> related_test_playbook.
        sublist ''no test'' (lower test) \<or> sublist ''no tests'' (lower test)]"

text \<open>\<open>get_test_playbooks_configuration\<close>, lines 398-421.\<close>

definition get_test_playbooks_configuration :: "string list \<Rightarrow> string \<Rightarrow> string \<Rightarrow> json list" where
  "get_test_playbooks_configuration test_playbooks content_item_id file_type =
     (if file_type = ''integration'' then
        map (\<lambda>test_playbook_id.
               JObj [(''integrations'', JStr content_item_id),
                     (''playbookID'', JStr test_playbook_id)]) test_playbooks
      else if file_type \<in> {''playbook'', ''script''} then
        map (\<lambda>test_playbook_id. JObj [(''playbookID'', JStr test_playbook_id)]) test_playbooks
      else [])"

section \<open>Helpers of demisto\_sdk.commands.common.tools\<close>

text \<open>
  Modelled from the spec: \<open>get_not_registered_tests\<close> is imported from
  \<open>demisto_sdk.commands.common.tools\<close>, which is not among the source files. The spec
  (4.1, findUnregistered) gives it: a declared id that is a "no tests" sentinel
  (case-insensitive substring match for "no test" or "no tests") is passed over; any
  other declared id is matched against the registry entries, and the ids with no match
  are returned in declared order. For kind integration a match is an entry with
  \<open>playbookID == id\<close> whose \<open>integrations\<close> contains the content item's id, as a single
  value or as a member of a sequence; for kinds script and playbook a match is an entry
  with \<open>playbookID == id\<close>. The spec names no rule for any other kind, so no match is
  found there; the theorems below that rely on matching restrict the kind to the three.
\<close>

definition is_no_tests_sentinel :: "string \<Rightarrow> bool" where
  "is_no_tests_sentinel test =
     (sublist ''no test'' (lower test) \<or> sublist ''no tests'' (lower test))"

definition entry_playbookID :: "json \<Rightarrow> json option" where
  "entry_playbookID entry = (case entry of JObj kvs \<Rightarrow> map_of kvs ''playbookID'' | _ \<Rightarrow> None)"

definition integrations_contain :: "json \<Rightarrow> string \<Rightarrow> bool" where
  "integrations_contain entry content_item_id =
     (case entry of
        JObj kvs \<Rightarrow>
          (case map_of kvs ''integrations'' of
             Some (JStr s) \<Rightarrow> s = content_item_id
           | Some (JArr xs) \<Rightarrow> JStr content_item_id \<in> set xs
           | _ \<Rightarrow> False)
      | _ \<Rightarrow> False)"

definition is_registered :: "json list \<Rightarrow> string \<Rightarrow> string \<Rightarrow> string \<Rightarrow> bool" where
  "is_registered conf_json_tests content_item_id file_type test =
     (if file_type = ''integration'' then
        list_ex (\<lambda>entry. entry_playbookID entry = Some (JStr test)
                        \<and> integrations_contain entry content_item_id) conf_json_tests
      else if file_type \<in> {''script'', ''playbook''} then
        list_ex (\<lambda>entry. entry_playbookID entry = Some (JStr test)) conf_json_tests
      else False)"

definition get_not_registered_tests ::
  "json list \<Rightarrow> string \<Rightarrow> string \<Rightarrow> string list \<Rightarrow> string list" where
  "get_not_registered_tests conf_json_tests content_item_id file_type test_playbooks =
     [test \<leftarrow> test_playbooks.
        \<not> is_no_tests_sentinel test
        \<and> \<not> is_registered conf_json_tests content_item_id file_type test]"

text \<open>
  Modelled from the spec: \<open>search_and_delete_from_conf\<close> is imported from
  \<open>demisto_sdk.commands.common.tools\<close>, which is not among the source files. The spec
  (4.1, deregisterTests) gives it: with \<open>explicitNoTests\<close> it is a no-op. Otherwise, for
  kind integration, an entry whose \<open>integrations\<close> equals the content item's id, or is a
  collection holding that id and no other, is removed; an entry whose collection holds
  the id among others loses the id and stays. For kinds script and playbook an entry is
  removed when its \<open>playbookID\<close> is among the declared tests. Every other entry is kept,
  and the order of the entries that remain is preserved. \<open>None\<close> below means the entry
  is removed.
\<close>

definition deregister_entry :: "string \<Rightarrow> string \<Rightarrow> string list \<Rightarrow> json \<Rightarrow> json option" where
  "deregister_entry content_item_id file_type test_playbooks entry =
     (if file_type = ''integration'' then
        (case entry of
           JObj kvs \<Rightarrow>
             (case map_of kvs ''integrations'' of
                Some (JStr s) \<Rightarrow> if s = content_item_id then None else Some entry
              | Some (JArr xs) \<Rightarrow>
                  if JStr content_item_id \<in> set xs then
                    (if removeAll (JStr content_item_id) xs = [] then None
                     else Some (JObj (AList.update ''integrations''
                                        (JArr (removeAll (JStr content_item_id) xs)) kvs)))
                  else Some entry
              | _ \<Rightarrow> Some entry)
         | _ \<Rightarrow> Some entry)
      else if file_type \<in> {''script'', ''playbook''} then
        (case entry_playbookID entry of
           Some (JStr p) \<Rightarrow> if p \<in> set test_playbooks then None else Some entry
         | _ \<Rightarrow> Some entry)
      else Some entry)"

definition search_and_delete_from_conf ::
  "json list \<Rightarrow> string \<Rightarrow> string \<Rightarrow> string list \<Rightarrow> bool \<Rightarrow> json list" where
  "search_and_delete_from_conf conf_json_tests content_item_id file_type test_playbooks
       no_test_playbooks_explicitly =
     (if no_test_playbooks_explicitly then conf_json_tests
      else List.map_filter (deregister_entry content_item_id file_type test_playbooks)
             conf_json_tests)"

section \<open>The reconciliation operations\<close>

text \<open>
  \<open>remove_from_conf_json\<close>, lines 272-300. \<open>related_test_playbook\<close> is
  \<open>self.data.get("tests", [])\<close>, the content item's declared tests. The subscript
  \<open>conf_json_content["tests"]\<close> raises \<open>KeyError\<close> on a dict without the key and
  \<open>TypeError\<close> on a document that is not a dict. A \<open>tests\<close> value that is not a
  sequence is a malformed registry, propagated as a data-format error (spec, 7).
\<close>

definition remove_from_conf_json :: "json option \<Rightarrow> string list \<Rightarrow> string \<Rightarrow> string \<Rightarrow> written" where
  "remove_from_conf_json conf related_test_playbook file_type content_item_id =
     (let no_test_playbooks_explicitly =
            no_test_playbooks_explicitly_remove related_test_playbook
      in case conf of
           None \<Rightarrow> Inr None
         | Some conf_json_content \<Rightarrow>
             (case conf_json_content of
                JObj kvs \<Rightarrow>
                  (case map_of kvs ''tests'' of
                     None \<Rightarrow> Inl KeyError
                   | Some (JArr conf_json_test_configuration) \<Rightarrow>
                       Inr (Some (JObj (AList.update ''tests''
                         (JArr (search_and_delete_from_conf conf_json_test_configuration
                                  content_item_id file_type related_test_playbook
                                  no_test_playbooks_explicitly)) kvs)))
                   | Some _ \<Rightarrow> Inl TypeError)
              | _ \<Rightarrow> Inl TypeError))"

text \<open>
  \<open>update_conf_json\<close>, lines 309-328: everything up to the value of
  \<open>not_registered_tests\<close>. \<open>Inr None\<close> is one of the three early returns (no declared
  tests, a declared "no test" sentinel, registry file absent); otherwise the loaded
  document and the list computed from it. \<open>content_item_id\<close> is the value of
  \<open>_get_file_id(file_type, self.data)\<close>.
\<close>

definition update_conf_json_not_registered_tests ::
  "json option \<Rightarrow> string list \<Rightarrow> string \<Rightarrow> string \<Rightarrow> error + (json \<times> string list) option" where
  "update_conf_json_not_registered_tests conf test_playbooks content_item_id file_type =
     (if test_playbooks = [] then Inr None
      else if no_test_playbooks_explicitly_update test_playbooks then Inr None
      else case conf of
             None \<Rightarrow> Inr None
           | Some conf_json_content \<Rightarrow>
               (case conf_json_content of
                  JObj kvs \<Rightarrow>
                    (case map_of kvs ''tests'' of
                       None \<Rightarrow> Inl KeyError
                     | Some (JArr conf_json_test_configuration) \<Rightarrow>
                         Inr (Some (conf_json_content,
                           get_not_registered_tests conf_json_test_configuration
                             content_item_id file_type test_playbooks))
                     | Some _ \<Rightarrow> Inl TypeError)
                | _ \<Rightarrow> Inl TypeError))"

text \<open>
  Lines 331-340: \<open>assume_answer\<close> is \<open>True\<close>, \<open>False\<close> or \<open>None\<close>; \<open>confirm\<close> is what
  \<open>click.confirm\<close> answers when it is asked.
\<close>

definition should_edit_conf_json :: "bool option \<Rightarrow> bool \<Rightarrow> bool" where
  "should_edit_conf_json assume_answer confirm =
     (case assume_answer of
        Some True \<Rightarrow> True
      | Some False \<Rightarrow> False
      | None \<Rightarrow> confirm)"

text \<open>
  Lines 342-346, registerTests: \<open>conf_json_content["tests"].extend(...)\<close> with the
  entries of \<open>get_test_playbooks_configuration\<close>. The list is extended in place, so the
  key keeps its position in the document.
\<close>

definition registerTests :: "json \<Rightarrow> string list \<Rightarrow> string \<Rightarrow> string \<Rightarrow> error + json" where
  "registerTests conf_json_content not_registered_tests content_item_id file_type =
     (case conf_json_content of
        JObj kvs \<Rightarrow>
          (case map_of kvs ''tests'' of
             None \<Rightarrow> Inl KeyError
           | Some (JArr ts) \<Rightarrow>
               Inr (JObj (AList.update ''tests''
                 (JArr (ts @ get_test_playbooks_configuration not_registered_tests
                               content_item_id file_type)) kvs))
           | Some _ \<Rightarrow> Inl AttributeError)
      | _ \<Rightarrow> Inl TypeError)"

text \<open>\<open>update_conf_json\<close>, lines 302-352.\<close>

definition update_conf_json ::
  "bool option \<Rightarrow> bool \<Rightarrow> json option \<Rightarrow> string list \<Rightarrow> string \<Rightarrow> string \<Rightarrow> written" where
  "update_conf_json assume_answer confirm conf test_playbooks content_item_id file_type =
     (case update_conf_json_not_registered_tests conf test_playbooks content_item_id file_type of
        Inl e \<Rightarrow> Inl e
      | Inr None \<Rightarrow> Inr None
      | Inr (Some (conf_json_content, not_registered_tests)) \<Rightarrow>
          if not_registered_tests \<noteq> [] then
            if should_edit_conf_json assume_answer confirm then
              (case registerTests conf_json_content not_registered_tests
                      content_item_id file_type of
                 Inl e \<Rightarrow> Inl e
               | Inr conf_json_content' \<Rightarrow> Inr (Some conf_json_content'))
            else Inr None
          else Inr None)"

section \<open>TestSuite/conf\_json.py\<close>

text \<open>
  \<open>ConfJSON.write_json\<close>, lines 17-46. An argument is \<open>None\<close> when it is unset (or
  passed as Python's \<open>None\<close>); the result is the document handed to \<open>json.dumps\<close>.
  Line 28 assigns \<open>None\<close> to \<open>skipped_tests\<close>, which \<open>json.dumps\<close> writes as
  \<open>null\<close>.
\<close>

definition write_json ::
  "json option \<Rightarrow> json option \<Rightarrow> json option \<Rightarrow> json option \<Rightarrow> json option \<Rightarrow> json" where
  "write_json tests skipped_tests skipped_integrations unmockable_integrations docker_thresholds =
     (let tests = (case tests of None \<Rightarrow> JArr [] | Some v \<Rightarrow> v);
          skipped_tests = (case skipped_tests of None \<Rightarrow> JNull | Some v \<Rightarrow> v);
          skipped_integrations = (case skipped_integrations of None \<Rightarrow> JArr [] | Some v \<Rightarrow> v);
          unmockable_integrations =
            (case unmockable_integrations of None \<Rightarrow> JArr [] | Some v \<Rightarrow> v);
          docker_thresholds = (case docker_thresholds of None \<Rightarrow> JObj [] | Some v \<Rightarrow> v)
      in JObj [(''tests'', tests),
               (''skipped_tests'', skipped_tests),
               (''skipped_integrations'', skipped_integrations),
               (''unmockable_integrations'', unmockable_integrations),
               (''docker_thresholds'', docker_thresholds)])"

section \<open>Properties\<close>

subsection \<open>Sentinels\<close>

lemma any_str_filter:
  "(\<And>x. P x \<Longrightarrow> x \<noteq> []) \<Longrightarrow> any_str (filter P xs) = (\<exists>x \<in> set xs. P x)"
  by (auto simp: any_str_def list_ex_iff)

lemma no_tests_imp_no_test: "sublist ''no tests'' s \<Longrightarrow> sublist ''no test'' s"
proof -
  assume a: "sublist ''no tests'' s"
  have "sublist ''no test'' (''no test'' @ ''s'')"
    by (rule sublist_append_rightI)
  then have "sublist ''no test'' ''no tests''" by simp
  from this a show "sublist ''no test'' s"
    by (rule sublist_order.order_trans)
qed

lemma is_no_tests_sentinel_iff: "is_no_tests_sentinel t = sublist ''no test'' (lower t)"
  using no_tests_imp_no_test [of "lower t"] by (auto simp: is_no_tests_sentinel_def)

lemma is_no_tests_sentinel_nonempty: "is_no_tests_sentinel t \<Longrightarrow> t \<noteq> []"
  by (auto simp: is_no_tests_sentinel_iff lower_def)

lemma no_test_playbooks_explicitly_update_iff:
  "no_test_playbooks_explicitly_update tps = (\<exists>t \<in> set tps. is_no_tests_sentinel t)"
proof -
  have "no_test_playbooks_explicitly_update tps = any_str (filter is_no_tests_sentinel tps)"
    by (simp add: no_test_playbooks_explicitly_update_def is_no_tests_sentinel_iff [abs_def])
  then show ?thesis
    by (simp add: any_str_filter is_no_tests_sentinel_nonempty)
qed

lemma no_test_playbooks_explicitly_remove_iff:
  "no_test_playbooks_explicitly_remove tps = (\<exists>t \<in> set tps. is_no_tests_sentinel t)"
proof -
  have "no_test_playbooks_explicitly_remove tps = any_str (filter is_no_tests_sentinel tps)"
    by (simp add: no_test_playbooks_explicitly_remove_def is_no_tests_sentinel_def [abs_def])
  then show ?thesis
    by (simp add: any_str_filter is_no_tests_sentinel_nonempty)
qed

subsection \<open>The fixture writer\<close>

text \<open>
  C4. Called with every argument unset, \<open>write_json\<close> writes a document with the five
  top-level keys; \<open>tests\<close>, \<open>skipped_integrations\<close> and \<open>unmockable_integrations\<close> are
  empty sequences and \<open>docker_thresholds\<close> an empty mapping, but \<open>skipped_tests\<close> is
  \<open>null\<close>, not an empty sequence.
\<close>

theorem write_json_unset:
  "write_json None None None None None =
     JObj [(''tests'', JArr []),
           (''skipped_tests'', JNull),
           (''skipped_integrations'', JArr []),
           (''unmockable_integrations'', JArr []),
           (''docker_thresholds'', JObj [])]"
  by (simp add: write_json_def)

subsection \<open>Entries built for the registry\<close>

text \<open>
  C9. For a file type that is none of integration, playbook and script,
  \<open>get_test_playbooks_configuration\<close> returns the empty list, whatever the test
  playbook ids and the content item id.
\<close>

theorem get_test_playbooks_configuration_other_kind:
  "file_type \<notin> {''integration'', ''playbook'', ''script''} \<Longrightarrow>
     get_test_playbooks_configuration test_playbooks content_item_id file_type = []"
  by (simp add: get_test_playbooks_configuration_def)

theorem get_test_playbooks_configuration_other_kind_witness:
  "''testplaybook'' \<notin> {''integration'', ''playbook'', ''script''}
   \<and> get_test_playbooks_configuration [''TPB1'', ''TPB2''] ''Slack'' ''testplaybook'' = []"
  using get_test_playbooks_configuration_other_kind
          [of "''testplaybook''" "[''TPB1'', ''TPB2'']" "''Slack''"]
  by simp

subsection \<open>Registry file absent\<close>

text \<open>
  C7. When the registry file is absent, so that loading it raises file-not-found,
  \<open>update_conf_json\<close> and \<open>remove_from_conf_json\<close> both return normally and write
  nothing, for every content item, declared-tests list and confirmation.
\<close>

theorem conf_file_absent_is_skipped:
  "update_conf_json assume_answer confirm None test_playbooks content_item_id file_type = Inr None
   \<and> remove_from_conf_json None related_test_playbook file_type content_item_id = Inr None"
  by (simp add: update_conf_json_def update_conf_json_not_registered_tests_def
      remove_from_conf_json_def)

subsection \<open>Registry without the tests key\<close>

text \<open>
  C8. When the loaded registry document has no top-level \<open>tests\<close> key, both operations
  raise \<open>KeyError\<close> to the caller and write nothing. \<open>remove_from_conf_json\<close> always
  loads the document; \<open>update_conf_json\<close> loads it when the declared tests are not
  empty and hold no "no test" sentinel.
\<close>

theorem missing_tests_key_raises:
  assumes "map_of kvs ''tests'' = None"
  shows "remove_from_conf_json (Some (JObj kvs)) related_test_playbook file_type content_item_id
           = Inl KeyError
         \<and> (test_playbooks \<noteq> [] \<and> \<not> no_test_playbooks_explicitly_update test_playbooks \<longrightarrow>
              update_conf_json assume_answer confirm (Some (JObj kvs)) test_playbooks
                content_item_id file_type = Inl KeyError)"
  using assms
  by (simp add: update_conf_json_def update_conf_json_not_registered_tests_def
      remove_from_conf_json_def)

theorem missing_tests_key_raises_witness:
  "map_of [(''skipped_tests'', JObj [])] ''tests'' = None
   \<and> remove_from_conf_json (Some (JObj [(''skipped_tests'', JObj [])])) [''TPB1'']
        ''integration'' ''Slack'' = Inl KeyError
   \<and> [''TPB1''] \<noteq> []
   \<and> \<not> no_test_playbooks_explicitly_update [''TPB1'']
   \<and> update_conf_json (Some True) False (Some (JObj [(''skipped_tests'', JObj [])])) [''TPB1'']
        ''Slack'' ''integration'' = Inl KeyError"
proof -
  have k: "map_of [(''skipped_tests'', JObj [])] ''tests'' = None" by simp
  have s: "\<not> no_test_playbooks_explicitly_update [''TPB1'']"
    by code_simp
  show ?thesis
    using k s missing_tests_key_raises [OF k, of "[''TPB1'']" "''integration''" "''Slack''"
        "[''TPB1'']" "Some True" False]
    by simp
qed

subsection \<open>Negative confirmation\<close>

text \<open>
  C10. When \<open>update_conf_json\<close> has found unregistered tests and the confirmation is
  negative (\<open>assume_answer\<close> is \<open>False\<close>, or it is \<open>None\<close> and the prompt is declined),
  it returns without writing the registry file.
\<close>

theorem negative_confirmation_writes_nothing:
  assumes "update_conf_json_not_registered_tests conf test_playbooks content_item_id file_type
             = Inr (Some (conf_json_content, not_registered_tests))"
    and "not_registered_tests \<noteq> []"
    and "assume_answer = Some False \<or> (assume_answer = None \<and> \<not> confirm)"
  shows "update_conf_json assume_answer confirm conf test_playbooks content_item_id file_type
           = Inr None"
  using assms by (auto simp: update_conf_json_def should_edit_conf_json_def)

theorem negative_confirmation_writes_nothing_witness:
  "update_conf_json_not_registered_tests (Some (JObj [(''tests'', JArr [])])) [''TPB1'']
       ''Slack'' ''integration''
     = Inr (Some (JObj [(''tests'', JArr [])], [''TPB1'']))
   \<and> [''TPB1''] \<noteq> []
   \<and> update_conf_json (Some False) True (Some (JObj [(''tests'', JArr [])])) [''TPB1'']
        ''Slack'' ''integration'' = Inr None
   \<and> update_conf_json None False (Some (JObj [(''tests'', JArr [])])) [''TPB1'']
        ''Slack'' ''integration'' = Inr None"
proof -
  have c: "update_conf_json_not_registered_tests (Some (JObj [(''tests'', JArr [])]))
             [''TPB1''] ''Slack'' ''integration''
           = Inr (Some (JObj [(''tests'', JArr [])], [''TPB1'']))"
    by code_simp
  have n: "[''TPB1''] \<noteq> []" by simp
  have "update_conf_json (Some False) True (Some (JObj [(''tests'', JArr [])])) [''TPB1'']
          ''Slack'' ''integration'' = Inr None"
    by (rule negative_confirmation_writes_nothing [OF c n]) simp
  moreover
  have "update_conf_json None False (Some (JObj [(''tests'', JArr [])])) [''TPB1'']
          ''Slack'' ''integration'' = Inr None"
    by (rule negative_confirmation_writes_nothing [OF c n]) simp
  ultimately show ?thesis using c by simp
qed

subsection \<open>Matching declared tests against the registry\<close>

lemma is_registered_append:
  "is_registered (ts @ us) cid ft t = (is_registered ts cid ft t \<or> is_registered us cid ft t)"
  unfolding is_registered_def list_ex_iff
  by (cases "ft = ''integration''"; cases "ft \<in> {''script'', ''playbook''}")
     (simp_all only: if_True if_False set_append bex_Un simp_thms)

lemma is_registered_integration:
  "is_registered ts cid ''integration'' t =
     (\<exists>e \<in> set ts. entry_playbookID e = Some (JStr t) \<and> integrations_contain e cid)"
  by (simp add: is_registered_def list_ex_iff)

lemma integrations_contain_obj:
  "integrations_contain (JObj kvs) cid =
     (map_of kvs ''integrations'' = Some (JStr cid)
      \<or> (\<exists>xs. map_of kvs ''integrations'' = Some (JArr xs) \<and> JStr cid \<in> set xs))"
  by (auto simp: integrations_contain_def split: option.splits json.splits)

lemma is_registered_new_entries:
  assumes "ft \<in> {''integration'', ''script'', ''playbook''}" and "t \<in> set ids"
  shows "is_registered (get_test_playbooks_configuration ids cid ft) cid ft t"
proof (cases "ft = ''integration''")
  case True
  have "entry_playbookID (JObj [(''integrations'', JStr cid), (''playbookID'', JStr t)])
          = Some (JStr t)"
    by (simp add: entry_playbookID_def)
  moreover
  have "integrations_contain (JObj [(''integrations'', JStr cid), (''playbookID'', JStr t)]) cid"
    by (simp add: integrations_contain_def)
  ultimately show ?thesis
    using True assms(2)
    by (auto simp: is_registered_integration get_test_playbooks_configuration_def)
next
  case False
  have "entry_playbookID (JObj [(''playbookID'', JStr t)]) = Some (JStr t)"
    by (simp add: entry_playbookID_def)
  then show ?thesis
    using False assms
    by (auto simp: is_registered_def get_test_playbooks_configuration_def list_ex_iff)
qed

lemma set_get_not_registered_tests:
  "set (get_not_registered_tests ts cid ft tps) =
     {t \<in> set tps. \<not> is_no_tests_sentinel t \<and> \<not> is_registered ts cid ft t}"
  by (simp add: get_not_registered_tests_def)

lemma get_not_registered_tests_after_register:
  assumes "ft \<in> {''integration'', ''script'', ''playbook''}"
  shows "get_not_registered_tests
           (ts @ get_test_playbooks_configuration (get_not_registered_tests ts cid ft tps) cid ft)
           cid ft tps = []"
proof -
  let ?new = "get_test_playbooks_configuration (get_not_registered_tests ts cid ft tps) cid ft"
  have "is_no_tests_sentinel t \<or> is_registered (ts @ ?new) cid ft t" if "t \<in> set tps" for t
  proof (cases "is_no_tests_sentinel t \<or> is_registered ts cid ft t")
    case True
    then show ?thesis by (auto simp: is_registered_append)
  next
    case False
    with that have "t \<in> set (get_not_registered_tests ts cid ft tps)"
      by (simp add: set_get_not_registered_tests)
    then have "is_registered ?new cid ft t"
      by (rule is_registered_new_entries [OF assms])
    then show ?thesis by (simp add: is_registered_append)
  qed
  then show ?thesis
    by (auto simp: get_not_registered_tests_def filter_empty_conv)
qed

lemma update_conf_json_not_registered_tests_loaded:
  assumes "tps \<noteq> []" and "\<not> no_test_playbooks_explicitly_update tps"
    and "map_of kvs ''tests'' = Some (JArr ts)"
  shows "update_conf_json_not_registered_tests (Some (JObj kvs)) tps cid ft
           = Inr (Some (JObj kvs, get_not_registered_tests ts cid ft tps))"
  using assms by (simp add: update_conf_json_not_registered_tests_def)

lemma update_conf_json_not_registered_tests_SomeD:
  assumes "update_conf_json_not_registered_tests conf tps cid ft = Inr (Some (doc, nrt))"
  shows "tps \<noteq> [] \<and> \<not> no_test_playbooks_explicitly_update tps \<and> conf = Some doc
         \<and> (\<exists>kvs ts. doc = JObj kvs \<and> map_of kvs ''tests'' = Some (JArr ts)
               \<and> nrt = get_not_registered_tests ts cid ft tps)"
  using assms
  by (auto simp: update_conf_json_not_registered_tests_def
      split: if_splits option.splits json.splits)

lemma registerTests_obj:
  assumes "map_of kvs ''tests'' = Some (JArr ts)"
  shows "registerTests (JObj kvs) ids cid ft =
           Inr (JObj (AList.update ''tests''
                  (JArr (ts @ get_test_playbooks_configuration ids cid ft)) kvs))"
  using assms by (simp add: registerTests_def)

lemma update_keeps_keys:
  assumes "map_of kvs k = Some v"
  shows "map fst (AList.update k w kvs) = map fst kvs"
proof -
  from assms have "k \<in> set (map fst kvs)"
    by (metis map_of_eq_None_iff option.distinct(1) set_map)
  then show ?thesis by (simp add: update_keys)
qed

lemma get_test_playbooks_configuration_kinds:
  assumes "ft \<in> {''integration'', ''script'', ''playbook''}"
  shows "get_test_playbooks_configuration ids cid ft =
           map (\<lambda>t. if ft = ''integration''
                     then JObj [(''integrations'', JStr cid), (''playbookID'', JStr t)]
                     else JObj [(''playbookID'', JStr t)]) ids"
proof (cases "ft = ''integration''")
  case True
  then show ?thesis by (simp only: get_test_playbooks_configuration_def if_True simp_thms)
next
  case False
  with assms have "ft \<in> {''playbook'', ''script''}" by blast
  with False show ?thesis by (simp only: get_test_playbooks_configuration_def if_True if_False simp_thms)
qed

lemma should_edit_conf_json_iff:
  "should_edit_conf_json a c = (a = Some True \<or> (a = None \<and> c))"
  by (simp add: should_edit_conf_json_def split: option.splits bool.splits)

lemma update_conf_json_writes:
  assumes "update_conf_json_not_registered_tests conf tps cid ft = Inr (Some (doc, nrt))"
    and "nrt \<noteq> []" and "a = Some True \<or> (a = None \<and> c)"
    and "registerTests doc nrt cid ft = Inr doc'"
  shows "update_conf_json a c conf tps cid ft = Inr (Some doc')"
  using assms(2,3) by (simp add: update_conf_json_def assms(1,4) should_edit_conf_json_iff)

lemma update_conf_json_written:
  assumes "update_conf_json a c conf tps cid ft = Inr (Some doc')"
  shows "\<exists>doc nrt. update_conf_json_not_registered_tests conf tps cid ft = Inr (Some (doc, nrt))
           \<and> nrt \<noteq> [] \<and> registerTests doc nrt cid ft = Inr doc'"
proof (cases "update_conf_json_not_registered_tests conf tps cid ft")
  case (Inl e)
  with assms show ?thesis by (simp add: update_conf_json_def)
next
  case (Inr r)
  show ?thesis
  proof (cases r)
    case None
    with Inr assms show ?thesis by (simp add: update_conf_json_def)
  next
    case (Some p)
    obtain doc nrt where p: "p = (doc, nrt)" by (cases p)
    from assms Inr Some p have n: "nrt \<noteq> []"
      by (simp add: update_conf_json_def split: if_splits)
    from assms Inr Some p n have "registerTests doc nrt cid ft = Inr doc'"
      by (simp add: update_conf_json_def split: if_splits sum.splits)
    with Inr Some p n show ?thesis by simp
  qed
qed

subsection \<open>Registering tests\<close>

text \<open>
  C5. On a registry whose \<open>tests\<close> is a sequence, registerTests (the write step of
  \<open>update_conf_json\<close> under an affirmative confirmation) appends to \<open>tests\<close> one entry
  per unregistered id, in order: the mapping with \<open>playbookID\<close> alone for kinds script
  and playbook, the mapping with \<open>playbookID\<close> and \<open>integrations\<close> (the content item's
  id) for kind integration. The entries already there stay in front, every other
  top-level key keeps its value and its place, and the document so built is the one
  \<open>update_conf_json\<close> writes.
\<close>

theorem registerTests_appends_entries:
  assumes "map_of kvs ''tests'' = Some (JArr ts)"
    and "file_type \<in> {''integration'', ''script'', ''playbook''}"
  shows "\<exists>kvs'. registerTests (JObj kvs) ids content_item_id file_type = Inr (JObj kvs')
           \<and> map_of kvs' ''tests'' =
               Some (JArr (ts @ map (\<lambda>t. if file_type = ''integration''
                   then JObj [(''integrations'', JStr content_item_id), (''playbookID'', JStr t)]
                   else JObj [(''playbookID'', JStr t)]) ids))
           \<and> (\<forall>k. k \<noteq> ''tests'' \<longrightarrow> map_of kvs' k = map_of kvs k)
           \<and> map fst kvs' = map fst kvs
           \<and> (ids \<noteq> [] \<and> (assume_answer = Some True \<or> (assume_answer = None \<and> confirm))
                \<and> update_conf_json_not_registered_tests conf test_playbooks content_item_id
                      file_type = Inr (Some (JObj kvs, ids))
              \<longrightarrow> update_conf_json assume_answer confirm conf test_playbooks content_item_id
                      file_type = Inr (Some (JObj kvs')))"
proof -
  let ?new = "get_test_playbooks_configuration ids content_item_id file_type"
  let ?kvs' = "AList.update ''tests'' (JArr (ts @ ?new)) kvs"
  have r: "registerTests (JObj kvs) ids content_item_id file_type = Inr (JObj ?kvs')"
    by (rule registerTests_obj [OF assms(1)])
  have t: "map_of ?kvs' ''tests'' =
             Some (JArr (ts @ map (\<lambda>t. if file_type = ''integration''
                 then JObj [(''integrations'', JStr content_item_id), (''playbookID'', JStr t)]
                 else JObj [(''playbookID'', JStr t)]) ids))"
    by (simp only: update_conv' get_test_playbooks_configuration_kinds [OF assms(2)] fun_upd_same)
  have o: "\<forall>k. k \<noteq> ''tests'' \<longrightarrow> map_of ?kvs' k = map_of kvs k"
    by (simp add: update_conv')
  have k: "map fst ?kvs' = map fst kvs"
    by (rule update_keeps_keys [OF assms(1)])
  have u: "ids \<noteq> [] \<and> (assume_answer = Some True \<or> (assume_answer = None \<and> confirm))
             \<and> update_conf_json_not_registered_tests conf test_playbooks content_item_id
                   file_type = Inr (Some (JObj kvs, ids))
           \<longrightarrow> update_conf_json assume_answer confirm conf test_playbooks content_item_id
                   file_type = Inr (Some (JObj ?kvs'))"
    using update_conf_json_writes [OF _ _ _ r] by blast
  from r t o k u show ?thesis by blast
qed

theorem registerTests_appends_entries_witness:
  "map_of [(''tests'', JArr [JObj [(''playbookID'', JStr ''TPB1''), (''integrations'', JStr ''Slack'')]]),
           (''skipped_tests'', JObj [])] ''tests''
     = Some (JArr [JObj [(''playbookID'', JStr ''TPB1''), (''integrations'', JStr ''Slack'')]])
   \<and> ''integration'' \<in> {''integration'', ''script'', ''playbook''}
   \<and> registerTests
        (JObj [(''tests'', JArr [JObj [(''playbookID'', JStr ''TPB1''), (''integrations'', JStr ''Slack'')]]),
               (''skipped_tests'', JObj [])])
        [''TPB2''] ''Slack'' ''integration''
     = Inr (JObj [(''tests'', JArr [JObj [(''playbookID'', JStr ''TPB1''), (''integrations'', JStr ''Slack'')],
                                    JObj [(''integrations'', JStr ''Slack''), (''playbookID'', JStr ''TPB2'')]]),
                  (''skipped_tests'', JObj [])])
   \<and> update_conf_json (Some True) False
        (Some (JObj [(''tests'', JArr [JObj [(''playbookID'', JStr ''TPB1''), (''integrations'', JStr ''Slack'')]]),
                     (''skipped_tests'', JObj [])]))
        [''TPB1'', ''TPB2''] ''Slack'' ''integration''
     = Inr (Some (JObj [(''tests'', JArr [JObj [(''playbookID'', JStr ''TPB1''), (''integrations'', JStr ''Slack'')],
                                          JObj [(''integrations'', JStr ''Slack''), (''playbookID'', JStr ''TPB2'')]]),
                        (''skipped_tests'', JObj [])]))"
proof -
  let ?e1 = "JObj [(''playbookID'', JStr ''TPB1''), (''integrations'', JStr ''Slack'')]"
  let ?e2 = "JObj [(''integrations'', JStr ''Slack''), (''playbookID'', JStr ''TPB2'')]"
  let ?kvs = "[(''tests'', JArr [?e1]), (''skipped_tests'', JObj [])]"
  let ?kvs1 = "[(''tests'', JArr [?e1, ?e2]), (''skipped_tests'', JObj [])]"
  have h1: "map_of ?kvs ''tests'' = Some (JArr [?e1])" by simp
  have h2: "''integration'' \<in> {''integration'', ''script'', ''playbook''}" by simp
  have n: "update_conf_json_not_registered_tests (Some (JObj ?kvs)) [''TPB1'', ''TPB2'']
             ''Slack'' ''integration'' = Inr (Some (JObj ?kvs, [''TPB2'']))"
    by code_simp
  have e: "registerTests (JObj ?kvs) [''TPB2''] ''Slack'' ''integration'' = Inr (JObj ?kvs1)"
    by code_simp
  from registerTests_appends_entries [OF h1 h2, where ids = "[''TPB2'']"
      and content_item_id = "''Slack''" and assume_answer = "Some True" and confirm = False
      and conf = "Some (JObj ?kvs)" and test_playbooks = "[''TPB1'', ''TPB2'']"]
  obtain kvs' where r: "registerTests (JObj ?kvs) [''TPB2''] ''Slack'' ''integration'' = Inr (JObj kvs')"
    and u: "[''TPB2''] \<noteq> [] \<and> (Some True = Some True \<or> (Some True = None \<and> False))
              \<and> update_conf_json_not_registered_tests (Some (JObj ?kvs)) [''TPB1'', ''TPB2'']
                    ''Slack'' ''integration'' = Inr (Some (JObj ?kvs, [''TPB2'']))
            \<longrightarrow> update_conf_json (Some True) False (Some (JObj ?kvs)) [''TPB1'', ''TPB2'']
                    ''Slack'' ''integration'' = Inr (Some (JObj kvs'))"
    by blast
  from r e have k: "kvs' = ?kvs1" by simp
  have "[''TPB2''] \<noteq> []" by simp
  with u n have w: "update_conf_json (Some True) False (Some (JObj ?kvs)) [''TPB1'', ''TPB2'']
                      ''Slack'' ''integration'' = Inr (Some (JObj kvs'))"
    by blast
  from h1 h2 e w [unfolded k] show ?thesis by (intro conjI)
qed

subsection \<open>Registering closes the gap\<close>

text \<open>
  C6. For a registry whose \<open>tests\<close> is a sequence and a content item of kind
  integration, script or playbook: registering the ids that findUnregistered returns
  and running findUnregistered again on the updated registry, with the same content
  item and declared tests, yields the empty sequence. The same holds for the
  operation as a whole: the document \<open>update_conf_json\<close> writes has no unregistered
  test left, and a second \<open>update_conf_json\<close> on it writes nothing.
\<close>

theorem register_then_find_unregistered_empty:
  assumes "map_of kvs ''tests'' = Some (JArr ts)"
    and "file_type \<in> {''integration'', ''script'', ''playbook''}"
  shows "\<exists>kvs' ts'.
           registerTests (JObj kvs)
               (get_not_registered_tests ts content_item_id file_type test_playbooks)
               content_item_id file_type = Inr (JObj kvs')
           \<and> map_of kvs' ''tests'' = Some (JArr ts')
           \<and> get_not_registered_tests ts' content_item_id file_type test_playbooks = []
           \<and> (\<forall>doc'. update_conf_json assume_answer confirm (Some (JObj kvs)) test_playbooks
                         content_item_id file_type = Inr (Some doc')
                  \<longrightarrow> doc' = JObj kvs'
                      \<and> update_conf_json_not_registered_tests (Some doc') test_playbooks
                            content_item_id file_type = Inr (Some (doc', []))
                      \<and> update_conf_json assume_answer' confirm' (Some doc') test_playbooks
                            content_item_id file_type = Inr None)"
proof -
  let ?nrt = "get_not_registered_tests ts content_item_id file_type test_playbooks"
  let ?ts' = "ts @ get_test_playbooks_configuration ?nrt content_item_id file_type"
  let ?kvs' = "AList.update ''tests'' (JArr ?ts') kvs"
  have r: "registerTests (JObj kvs) ?nrt content_item_id file_type = Inr (JObj ?kvs')"
    by (rule registerTests_obj [OF assms(1)])
  have t: "map_of ?kvs' ''tests'' = Some (JArr ?ts')"
    by (simp add: update_conv')
  have e: "get_not_registered_tests ?ts' content_item_id file_type test_playbooks = []"
    by (rule get_not_registered_tests_after_register [OF assms(2)])
  have u: "doc' = JObj ?kvs'
           \<and> update_conf_json_not_registered_tests (Some doc') test_playbooks
                 content_item_id file_type = Inr (Some (doc', []))
           \<and> update_conf_json assume_answer' confirm' (Some doc') test_playbooks
                 content_item_id file_type = Inr None"
    if w: "update_conf_json assume_answer confirm (Some (JObj kvs)) test_playbooks
             content_item_id file_type = Inr (Some doc')" for doc'
  proof -
    from update_conf_json_written [OF w] obtain doc nrt where
      n: "update_conf_json_not_registered_tests (Some (JObj kvs)) test_playbooks
            content_item_id file_type = Inr (Some (doc, nrt))"
      and rr: "registerTests doc nrt content_item_id file_type = Inr doc'"
      by blast
    from update_conf_json_not_registered_tests_SomeD [OF n] assms(1)
    have ne: "test_playbooks \<noteq> []"
      and ns: "\<not> no_test_playbooks_explicitly_update test_playbooks"
      and d: "doc = JObj kvs" and nn: "nrt = ?nrt"
      by auto
    from rr r d nn have d': "doc' = JObj ?kvs'" by simp
    have s: "update_conf_json_not_registered_tests (Some doc') test_playbooks
               content_item_id file_type = Inr (Some (doc', []))"
      unfolding d' using update_conf_json_not_registered_tests_loaded [OF ne ns t] e by simp
    have "update_conf_json assume_answer' confirm' (Some doc') test_playbooks
            content_item_id file_type = Inr None"
      by (simp add: update_conf_json_def s)
    with d' s show ?thesis by blast
  qed
  from r t e u show ?thesis by blast
qed

theorem register_then_find_unregistered_empty_witness:
  "map_of [(''tests'', JArr [JObj [(''playbookID'', JStr ''TPB1''), (''integrations'', JStr ''Slack'')]])]
       ''tests''
     = Some (JArr [JObj [(''playbookID'', JStr ''TPB1''), (''integrations'', JStr ''Slack'')]])
   \<and> ''integration'' \<in> {''integration'', ''script'', ''playbook''}
   \<and> get_not_registered_tests
        [JObj [(''playbookID'', JStr ''TPB1''), (''integrations'', JStr ''Slack'')]]
        ''Slack'' ''integration'' [''TPB1'', ''TPB2''] = [''TPB2'']
   \<and> registerTests
        (JObj [(''tests'', JArr [JObj [(''playbookID'', JStr ''TPB1''), (''integrations'', JStr ''Slack'')]])])
        [''TPB2''] ''Slack'' ''integration''
     = Inr (JObj [(''tests'', JArr [JObj [(''playbookID'', JStr ''TPB1''), (''integrations'', JStr ''Slack'')],
                                    JObj [(''integrations'', JStr ''Slack''), (''playbookID'', JStr ''TPB2'')]])])
   \<and> get_not_registered_tests
        [JObj [(''playbookID'', JStr ''TPB1''), (''integrations'', JStr ''Slack'')],
         JObj [(''integrations'', JStr ''Slack''), (''playbookID'', JStr ''TPB2'')]]
        ''Slack'' ''integration'' [''TPB1'', ''TPB2''] = []"
proof -
  let ?e1 = "JObj [(''playbookID'', JStr ''TPB1''), (''integrations'', JStr ''Slack'')]"
  let ?e2 = "JObj [(''integrations'', JStr ''Slack''), (''playbookID'', JStr ''TPB2'')]"
  let ?kvs = "[(''tests'', JArr [?e1])]"
  let ?kvs1 = "[(''tests'', JArr [?e1, ?e2])]"
  have h1: "map_of ?kvs ''tests'' = Some (JArr [?e1])" by simp
  have h2: "''integration'' \<in> {''integration'', ''script'', ''playbook''}" by simp
  have g: "get_not_registered_tests [?e1] ''Slack'' ''integration'' [''TPB1'', ''TPB2'']
             = [''TPB2'']"
    by code_simp
  have e: "registerTests (JObj ?kvs) [''TPB2''] ''Slack'' ''integration'' = Inr (JObj ?kvs1)"
    by code_simp
  from register_then_find_unregistered_empty [OF h1 h2, where content_item_id = "''Slack''"
      and test_playbooks = "[''TPB1'', ''TPB2'']"]
  obtain kvs' ts' where
    r: "registerTests (JObj ?kvs)
          (get_not_registered_tests [?e1] ''Slack'' ''integration'' [''TPB1'', ''TPB2''])
          ''Slack'' ''integration'' = Inr (JObj kvs')"
    and t: "map_of kvs' ''tests'' = Some (JArr ts')"
    and z: "get_not_registered_tests ts' ''Slack'' ''integration'' [''TPB1'', ''TPB2''] = []"
    by blast
  from r g e have "kvs' = ?kvs1" by simp
  with t have "ts' = [?e1, ?e2]" by simp
  with z have f: "get_not_registered_tests [?e1, ?e2] ''Slack'' ''integration''
                    [''TPB1'', ''TPB2''] = []"
    by simp
  from h1 h2 g e f show ?thesis by (intro conjI)
qed

subsection \<open>The integration scenario\<close>

lemma entry_match_integration:
  "(entry_playbookID e = Some (JStr t) \<and> integrations_contain e cid) =
     (\<exists>kvs. e = JObj kvs \<and> map_of kvs ''playbookID'' = Some (JStr t)
        \<and> (map_of kvs ''integrations'' = Some (JStr cid)
            \<or> (\<exists>xs. map_of kvs ''integrations'' = Some (JArr xs) \<and> JStr cid \<in> set xs)))"
  by (cases e) (simp_all add: entry_playbookID_def integrations_contain_obj)

text \<open>
  C2. For the registry \<open>{"tests": [{"playbookID": "TPB1", "integrations": "Slack"}]}\<close>
  and the integration \<open>Slack\<close> declaring \<open>TPB1\<close> and \<open>TPB2\<close>, findUnregistered returns
  exactly \<open>["TPB2"]\<close>, also as \<open>update_conf_json\<close> computes it. For kind integration a
  declared id is registered exactly when some entry is a mapping whose \<open>playbookID\<close> is
  that id and whose \<open>integrations\<close> is the content item's id or a sequence holding it;
  a declared id is returned exactly when it is no sentinel and is not registered.
\<close>

theorem integration_match_needs_playbook_and_integration:
  "get_not_registered_tests
       [JObj [(''playbookID'', JStr ''TPB1''), (''integrations'', JStr ''Slack'')]]
       ''Slack'' ''integration'' [''TPB1'', ''TPB2''] = [''TPB2'']
   \<and> update_conf_json_not_registered_tests
        (Some (JObj [(''tests'', JArr [JObj [(''playbookID'', JStr ''TPB1''),
                                            (''integrations'', JStr ''Slack'')]])]))
        [''TPB1'', ''TPB2''] ''Slack'' ''integration''
     = Inr (Some (JObj [(''tests'', JArr [JObj [(''playbookID'', JStr ''TPB1''),
                                                (''integrations'', JStr ''Slack'')]])],
                  [''TPB2'']))
   \<and> is_registered conf_json_tests content_item_id ''integration'' test =
       (\<exists>entry \<in> set conf_json_tests. \<exists>kvs. entry = JObj kvs
          \<and> map_of kvs ''playbookID'' = Some (JStr test)
          \<and> (map_of kvs ''integrations'' = Some (JStr content_item_id)
              \<or> (\<exists>xs. map_of kvs ''integrations'' = Some (JArr xs)
                       \<and> JStr content_item_id \<in> set xs)))
   \<and> (test \<in> set (get_not_registered_tests conf_json_tests content_item_id ''integration''
                      test_playbooks)) =
       (test \<in> set test_playbooks \<and> \<not> is_no_tests_sentinel test
        \<and> \<not> is_registered conf_json_tests content_item_id ''integration'' test)"
proof -
  have a: "get_not_registered_tests
             [JObj [(''playbookID'', JStr ''TPB1''), (''integrations'', JStr ''Slack'')]]
             ''Slack'' ''integration'' [''TPB1'', ''TPB2''] = [''TPB2'']"
    by code_simp
  have b: "update_conf_json_not_registered_tests
             (Some (JObj [(''tests'', JArr [JObj [(''playbookID'', JStr ''TPB1''),
                                                 (''integrations'', JStr ''Slack'')]])]))
             [''TPB1'', ''TPB2''] ''Slack'' ''integration''
           = Inr (Some (JObj [(''tests'', JArr [JObj [(''playbookID'', JStr ''TPB1''),
                                                      (''integrations'', JStr ''Slack'')]])],
                        [''TPB2'']))"
    by code_simp
  have c: "is_registered conf_json_tests content_item_id ''integration'' test =
       (\<exists>entry \<in> set conf_json_tests. \<exists>kvs. entry = JObj kvs
          \<and> map_of kvs ''playbookID'' = Some (JStr test)
          \<and> (map_of kvs ''integrations'' = Some (JStr content_item_id)
              \<or> (\<exists>xs. map_of kvs ''integrations'' = Some (JArr xs)
                       \<and> JStr content_item_id \<in> set xs)))"
    by (simp only: is_registered_integration entry_match_integration)
  have d: "(test \<in> set (get_not_registered_tests conf_json_tests content_item_id
                          ''integration'' test_playbooks)) =
       (test \<in> set test_playbooks \<and> \<not> is_no_tests_sentinel test
        \<and> \<not> is_registered conf_json_tests content_item_id ''integration'' test)"
    by (simp only: set_get_not_registered_tests mem_Collect_eq)
  from a b c d show ?thesis by (intro conjI)
qed

subsection \<open>The sentinel gate of update_conf_json\<close>

text \<open>
  C1, as stated, fails on a declared list that mixes a sentinel with other ids. For
  the registry \<open>{"tests": []}\<close> and the integration \<open>Slack\<close> declaring \<open>No tests\<close> and
  \<open>TPB2\<close>, the declared non-sentinel ids with no matching entry are \<open>["TPB2"]\<close>, yet
  \<open>update_conf_json\<close> returns at line 316 before it loads the registry: it computes no
  list and, even with an affirmative answer, writes nothing.
\<close>

theorem mixed_sentinel_list_is_not_checked:
  "update_conf_json_not_registered_tests (Some (JObj [(''tests'', JArr [])]))
       [''No tests'', ''TPB2''] ''Slack'' ''integration'' = Inr None
   \<and> [t \<leftarrow> [''No tests'', ''TPB2''].
        \<not> is_no_tests_sentinel t \<and> \<not> is_registered [] ''Slack'' ''integration'' t] = [''TPB2'']
   \<and> update_conf_json (Some True) True (Some (JObj [(''tests'', JArr [])]))
        [''No tests'', ''TPB2''] ''Slack'' ''integration'' = Inr None"
proof -
  have a: "update_conf_json_not_registered_tests (Some (JObj [(''tests'', JArr [])]))
             [''No tests'', ''TPB2''] ''Slack'' ''integration'' = Inr None"
    by code_simp
  have b: "[t \<leftarrow> [''No tests'', ''TPB2''].
             \<not> is_no_tests_sentinel t \<and> \<not> is_registered [] ''Slack'' ''integration'' t]
           = [''TPB2'']"
    by code_simp
  have c: "update_conf_json (Some True) True (Some (JObj [(''tests'', JArr [])]))
             [''No tests'', ''TPB2''] ''Slack'' ''integration'' = Inr None"
    by code_simp
  from a b c show ?thesis by (intro conjI)
qed

text \<open>
  C1, amended. \<open>update_conf_json\<close> tests the declared list for a sentinel (an id that
  contains "no test", case-insensitively) before anything else. When some declared id
  is a sentinel it returns at once: no declared id is checked and nothing is written.
  When the declared list is not empty and holds no sentinel, and the registry has a
  \<open>tests\<close> sequence, the list it computes is exactly the sub-sequence of the declared
  ids with no matching registry entry, in declared order.
\<close>

theorem update_conf_json_not_registered_tests_gated:
  "no_test_playbooks_explicitly_update test_playbooks
     = (\<exists>t \<in> set test_playbooks. is_no_tests_sentinel t)
   \<and> ((\<exists>t \<in> set test_playbooks. is_no_tests_sentinel t) \<longrightarrow>
        update_conf_json_not_registered_tests conf test_playbooks content_item_id file_type
          = Inr None
        \<and> update_conf_json assume_answer confirm conf test_playbooks content_item_id file_type
          = Inr None)
   \<and> (test_playbooks \<noteq> [] \<and> \<not> (\<exists>t \<in> set test_playbooks. is_no_tests_sentinel t)
        \<and> map_of kvs ''tests'' = Some (JArr ts) \<longrightarrow>
        update_conf_json_not_registered_tests (Some (JObj kvs)) test_playbooks
            content_item_id file_type
          = Inr (Some (JObj kvs,
                   [t \<leftarrow> test_playbooks. \<not> is_registered ts content_item_id file_type t])))"
proof (intro conjI impI)
  show "no_test_playbooks_explicitly_update test_playbooks
          = (\<exists>t \<in> set test_playbooks. is_no_tests_sentinel t)"
    by (rule no_test_playbooks_explicitly_update_iff)
next
  assume "\<exists>t \<in> set test_playbooks. is_no_tests_sentinel t"
  then have g: "no_test_playbooks_explicitly_update test_playbooks"
    by (simp only: no_test_playbooks_explicitly_update_iff)
  then show n: "update_conf_json_not_registered_tests conf test_playbooks content_item_id
                  file_type = Inr None"
    by (simp add: update_conf_json_not_registered_tests_def)
  then show "update_conf_json assume_answer confirm conf test_playbooks content_item_id
               file_type = Inr None"
    by (simp add: update_conf_json_def)
next
  assume h: "test_playbooks \<noteq> [] \<and> \<not> (\<exists>t \<in> set test_playbooks. is_no_tests_sentinel t)
               \<and> map_of kvs ''tests'' = Some (JArr ts)"
  then have ne: "test_playbooks \<noteq> []"
    and ns: "\<not> no_test_playbooks_explicitly_update test_playbooks"
    and t: "map_of kvs ''tests'' = Some (JArr ts)"
    by (simp_all only: no_test_playbooks_explicitly_update_iff simp_thms)
  from h have "\<forall>t \<in> set test_playbooks. \<not> is_no_tests_sentinel t" by blast
  then have "get_not_registered_tests ts content_item_id file_type test_playbooks
               = [t \<leftarrow> test_playbooks. \<not> is_registered ts content_item_id file_type t]"
    unfolding get_not_registered_tests_def by (intro filter_cong) (simp_all only: simp_thms)
  with update_conf_json_not_registered_tests_loaded [OF ne ns t]
  show "update_conf_json_not_registered_tests (Some (JObj kvs)) test_playbooks
            content_item_id file_type
          = Inr (Some (JObj kvs,
                   [t \<leftarrow> test_playbooks. \<not> is_registered ts content_item_id file_type t]))"
    by simp
qed

theorem update_conf_json_not_registered_tests_gated_witness:
  "(\<exists>t \<in> set [''No tests'', ''TPB2'']. is_no_tests_sentinel t)
   \<and> update_conf_json_not_registered_tests (Some (JObj [(''tests'', JArr [])]))
        [''No tests'', ''TPB2''] ''Slack'' ''integration'' = Inr None
   \<and> update_conf_json (Some True) True (Some (JObj [(''tests'', JArr [])]))
        [''No tests'', ''TPB2''] ''Slack'' ''integration'' = Inr None
   \<and> [''TPB1'', ''TPB2''] \<noteq> []
   \<and> \<not> (\<exists>t \<in> set [''TPB1'', ''TPB2'']. is_no_tests_sentinel t)
   \<and> map_of [(''tests'', JArr [JObj [(''playbookID'', JStr ''TPB1''),
                                     (''integrations'', JStr ''Slack'')]])] ''tests''
       = Some (JArr [JObj [(''playbookID'', JStr ''TPB1''), (''integrations'', JStr ''Slack'')]])
   \<and> update_conf_json_not_registered_tests
        (Some (JObj [(''tests'', JArr [JObj [(''playbookID'', JStr ''TPB1''),
                                            (''integrations'', JStr ''Slack'')]])]))
        [''TPB1'', ''TPB2''] ''Slack'' ''integration''
       = Inr (Some (JObj [(''tests'', JArr [JObj [(''playbookID'', JStr ''TPB1''),
                                                  (''integrations'', JStr ''Slack'')]])],
                    [''TPB2'']))"
proof -
  let ?e1 = "JObj [(''playbookID'', JStr ''TPB1''), (''integrations'', JStr ''Slack'')]"
  let ?kvs = "[(''tests'', JArr [?e1])]"
  have s1: "is_no_tests_sentinel ''No tests''" by code_simp
  then have a: "\<exists>t \<in> set [''No tests'', ''TPB2'']. is_no_tests_sentinel t" by simp
  have n1: "\<not> is_no_tests_sentinel ''TPB1''" by code_simp
  have n2: "\<not> is_no_tests_sentinel ''TPB2''" by code_simp
  from n1 n2 have b: "\<not> (\<exists>t \<in> set [''TPB1'', ''TPB2'']. is_no_tests_sentinel t)" by simp
  have ne: "[''TPB1'', ''TPB2''] \<noteq> []" by simp
  have m: "map_of ?kvs ''tests'' = Some (JArr [?e1])" by simp
  have f: "[t \<leftarrow> [''TPB1'', ''TPB2'']. \<not> is_registered [?e1] ''Slack'' ''integration'' t]
             = [''TPB2'']"
    by code_simp
  note g = update_conf_json_not_registered_tests_gated
    [where test_playbooks = "[''No tests'', ''TPB2'']" and conf = "Some (JObj [(''tests'', JArr [])])"
       and content_item_id = "''Slack''" and file_type = "''integration''"
       and assume_answer = "Some True" and confirm = True]
  from g a have c1: "update_conf_json_not_registered_tests (Some (JObj [(''tests'', JArr [])]))
                       [''No tests'', ''TPB2''] ''Slack'' ''integration'' = Inr None"
    and c2: "update_conf_json (Some True) True (Some (JObj [(''tests'', JArr [])]))
               [''No tests'', ''TPB2''] ''Slack'' ''integration'' = Inr None"
    by blast+
  note h = update_conf_json_not_registered_tests_gated
    [where test_playbooks = "[''TPB1'', ''TPB2'']" and kvs = ?kvs and ts = "[?e1]"
       and content_item_id = "''Slack''" and file_type = "''integration''"]
  from h ne b m have "update_conf_json_not_registered_tests (Some (JObj ?kvs))
                        [''TPB1'', ''TPB2''] ''Slack'' ''integration''
                      = Inr (Some (JObj ?kvs,
                          [t \<leftarrow> [''TPB1'', ''TPB2''].
                             \<not> is_registered [?e1] ''Slack'' ''integration'' t]))"
    by blast
  then have c3: "update_conf_json_not_registered_tests (Some (JObj ?kvs))
                   [''TPB1'', ''TPB2''] ''Slack'' ''integration''
                 = Inr (Some (JObj ?kvs, [''TPB2'']))"
    by (simp only: f)
  from a c1 c2 ne b m c3 show ?thesis by (intro conjI)
qed

subsection \<open>Deregistering with an explicit "no tests"\<close>

lemma update_same_value:
  assumes "map_of kvs k = Some v"
  shows "AList.update k v kvs = kvs"
  using assms by (rule update_triv)

text \<open>
  C3, as stated, fails on the condition. For a script declaring \<open>No tests\<close> and \<open>TPB1\<close>
  the declared tests do not resolve entirely to sentinels, yet
  \<open>remove_from_conf_json\<close> computes its explicit-no-tests condition as true (lines
  280-284 use \<open>any\<close>) and writes the registry back unchanged, where the deregistration
  with the condition false removes the \<open>TPB1\<close> entry.
\<close>

theorem explicit_no_tests_is_any_not_all:
  "no_test_playbooks_explicitly_remove [''No tests'', ''TPB1'']
   \<and> \<not> list_all is_no_tests_sentinel [''No tests'', ''TPB1'']
   \<and> remove_from_conf_json (Some (JObj [(''tests'', JArr [JObj [(''playbookID'', JStr ''TPB1'')]])]))
        [''No tests'', ''TPB1''] ''script'' ''S''
       = Inr (Some (JObj [(''tests'', JArr [JObj [(''playbookID'', JStr ''TPB1'')]])]))
   \<and> search_and_delete_from_conf [JObj [(''playbookID'', JStr ''TPB1'')]] ''S'' ''script''
        [''No tests'', ''TPB1''] False = []"
proof -
  have a: "no_test_playbooks_explicitly_remove [''No tests'', ''TPB1'']" by code_simp
  have b: "\<not> list_all is_no_tests_sentinel [''No tests'', ''TPB1'']" by code_simp
  have c: "remove_from_conf_json
             (Some (JObj [(''tests'', JArr [JObj [(''playbookID'', JStr ''TPB1'')]])]))
             [''No tests'', ''TPB1''] ''script'' ''S''
           = Inr (Some (JObj [(''tests'', JArr [JObj [(''playbookID'', JStr ''TPB1'')]])]))"
    by code_simp
  have d: "search_and_delete_from_conf [JObj [(''playbookID'', JStr ''TPB1'')]] ''S'' ''script''
             [''No tests'', ''TPB1''] False = []"
    by code_simp
  from a b c d show ?thesis by (intro conjI)
qed

text \<open>
  C3, amended. \<open>remove_from_conf_json\<close> computes its explicit-no-tests condition as:
  at least one declared test is a "no tests" sentinel. With the condition true
  deregisterTests returns every list of entries unchanged, and
  \<open>remove_from_conf_json\<close> on a registry with a \<open>tests\<close> sequence writes back the
  document it loaded.
\<close>

theorem remove_from_conf_json_explicit_no_tests:
  "no_test_playbooks_explicitly_remove related_test_playbook
     = (\<exists>t \<in> set related_test_playbook. is_no_tests_sentinel t)
   \<and> search_and_delete_from_conf conf_json_tests content_item_id file_type
        related_test_playbook True = conf_json_tests
   \<and> ((\<exists>t \<in> set related_test_playbook. is_no_tests_sentinel t)
        \<and> map_of kvs ''tests'' = Some (JArr conf_json_tests) \<longrightarrow>
        remove_from_conf_json (Some (JObj kvs)) related_test_playbook file_type content_item_id
          = Inr (Some (JObj kvs)))"
proof (intro conjI impI)
  show "no_test_playbooks_explicitly_remove related_test_playbook
          = (\<exists>t \<in> set related_test_playbook. is_no_tests_sentinel t)"
    by (rule no_test_playbooks_explicitly_remove_iff)
next
  show "search_and_delete_from_conf conf_json_tests content_item_id file_type
          related_test_playbook True = conf_json_tests"
    by (simp add: search_and_delete_from_conf_def)
next
  assume h: "(\<exists>t \<in> set related_test_playbook. is_no_tests_sentinel t)
               \<and> map_of kvs ''tests'' = Some (JArr conf_json_tests)"
  then have e: "no_test_playbooks_explicitly_remove related_test_playbook"
    and m: "map_of kvs ''tests'' = Some (JArr conf_json_tests)"
    by (simp_all only: no_test_playbooks_explicitly_remove_iff simp_thms)
  have "remove_from_conf_json (Some (JObj kvs)) related_test_playbook file_type content_item_id
          = Inr (Some (JObj (AList.update ''tests'' (JArr conf_json_tests) kvs)))"
    by (simp add: remove_from_conf_json_def e m search_and_delete_from_conf_def)
  then show "remove_from_conf_json (Some (JObj kvs)) related_test_playbook file_type
               content_item_id = Inr (Some (JObj kvs))"
    by (simp only: update_same_value [OF m])
qed

theorem remove_from_conf_json_explicit_no_tests_witness:
  "(\<exists>t \<in> set [''No tests'', ''TPB1'']. is_no_tests_sentinel t)
   \<and> map_of [(''tests'', JArr [JObj [(''playbookID'', JStr ''TPB1'')]]),
             (''skipped_tests'', JObj [])] ''tests''
       = Some (JArr [JObj [(''playbookID'', JStr ''TPB1'')]])
   \<and> remove_from_conf_json
        (Some (JObj [(''tests'', JArr [JObj [(''playbookID'', JStr ''TPB1'')]]),
                     (''skipped_tests'', JObj [])]))
        [''No tests'', ''TPB1''] ''script'' ''S''
       = Inr (Some (JObj [(''tests'', JArr [JObj [(''playbookID'', JStr ''TPB1'')]]),
                          (''skipped_tests'', JObj [])]))"
proof -
  let ?kvs = "[(''tests'', JArr [JObj [(''playbookID'', JStr ''TPB1'')]]),
               (''skipped_tests'', JObj [])]"
  have s1: "is_no_tests_sentinel ''No tests''" by code_simp
  then have a: "\<exists>t \<in> set [''No tests'', ''TPB1'']. is_no_tests_sentinel t" by simp
  have m: "map_of ?kvs ''tests'' = Some (JArr [JObj [(''playbookID'', JStr ''TPB1'')]])"
    by simp
  note g = remove_from_conf_json_explicit_no_tests
    [where related_test_playbook = "[''No tests'', ''TPB1'']" and kvs = ?kvs
       and conf_json_tests = "[JObj [(''playbookID'', JStr ''TPB1'')]]"
       and file_type = "''script''" and content_item_id = "''S''"]
  from g a m have c: "remove_from_conf_json (Some (JObj ?kvs)) [''No tests'', ''TPB1'']
                        ''script'' ''S'' = Inr (Some (JObj ?kvs))"
    by blast
  from a m c show ?thesis by (intro conjI)
qed

end
